theory Spec2Isabelle
  imports Complex_Main
begin

section \<open>gradus: temperature scales and their identifiers\<close>

text \<open>
  The repository holds two versions of one command-line program, \<^verbatim>\<open>gradus_fixed.c\<close> and
  \<^verbatim>\<open>gradus_enhanced.c\<close>. The enumeration, the constants, the fourteen one-line conversion
  functions, \<^verbatim>\<open>Get_type\<close> and the array of \<^verbatim>\<open>Is_valid_scale\<close> are character for character
  the same in both files and are embedded once; the scan of \<^verbatim>\<open>Is_valid_scale\<close> is a
  \<^verbatim>\<open>for\<close> loop in one file and a \<^verbatim>\<open>while\<close> loop in the other, with the same steps.
  \<^verbatim>\<open>Convert_temperature\<close> differs between the files and is embedded twice.

  A C \<^verbatim>\<open>double\<close> is modelled by the real number it denotes: \<^verbatim>\<open>+\<close>, \<^verbatim>\<open>-\<close>, \<^verbatim>\<open>*\<close>, \<^verbatim>\<open>/\<close> are the
  exact operations, rounding is not modelled, and the two IEEE zeros both denote \<open>0\<close>.
  \<^verbatim>\<open>Parse\<close> rejects infinities and NaN before a value reaches the engine, so every value
  the engine receives denotes a real number. A C string is a \<open>string\<close> (the bytes before
  the terminating NUL), and \<^verbatim>\<open>strcmp(a, b) == 0\<close> is equality of strings.
\<close>

datatype Temperature =
    CELSIUS
  | FAHRENHEIT
  | KELVIN
  | RANKINE
  | REAUMUR
  | DELISLE
  | NEWTON
  | ROMER
  | UNKNOWN

subsection \<open>Constants\<close>

definition FAHRENHEIT_RATIO :: real where
  "FAHRENHEIT_RATIO = 9.0 / 5.0"

definition CELSIUS_RATIO :: real where
  "CELSIUS_RATIO = 5.0 / 9.0"

definition ABSOLUTE_ZERO_CELSIUS :: real where
  "ABSOLUTE_ZERO_CELSIUS = - 273.15"

definition ABSOLUTE_ZERO_FAHRENHEIT :: real where
  "ABSOLUTE_ZERO_FAHRENHEIT = - 459.67"

definition REAUMUR_RATIO :: real where
  "REAUMUR_RATIO = 4.0 / 5.0"

definition DELISLE_RATIO :: real where
  "DELISLE_RATIO = 3.0 / 2.0"

definition NEWTON_RATIO :: real where
  "NEWTON_RATIO = 33.0 / 100.0"

definition ROMER_RATIO :: real where
  "ROMER_RATIO = 21.0 / 40.0"

definition ROMER_OFFSET :: real where
  "ROMER_OFFSET = 7.5"

definition DELISLE_BASE :: real where
  "DELISLE_BASE = 100.0"

subsection \<open>Conversions to and from Celsius\<close>

definition Celsius_to_Fahrenheit :: "real \<Rightarrow> real" where
  "Celsius_to_Fahrenheit c = c * FAHRENHEIT_RATIO + 32.0"

definition Fahrenheit_to_Celsius :: "real \<Rightarrow> real" where
  "Fahrenheit_to_Celsius f = (f - 32.0) * CELSIUS_RATIO"

definition Celsius_to_Kelvin :: "real \<Rightarrow> real" where
  "Celsius_to_Kelvin c = c - ABSOLUTE_ZERO_CELSIUS"

definition Kelvin_to_Celsius :: "real \<Rightarrow> real" where
  "Kelvin_to_Celsius k = k + ABSOLUTE_ZERO_CELSIUS"

definition Celsius_to_Rankine :: "real \<Rightarrow> real" where
  "Celsius_to_Rankine c = (c - ABSOLUTE_ZERO_CELSIUS) * FAHRENHEIT_RATIO"

definition Rankine_to_Celsius :: "real \<Rightarrow> real" where
  "Rankine_to_Celsius r = (r - ABSOLUTE_ZERO_FAHRENHEIT + 32.0) * CELSIUS_RATIO"

definition Celsius_to_Reaumur :: "real \<Rightarrow> real" where
  "Celsius_to_Reaumur c = c * REAUMUR_RATIO"

definition Reaumur_to_Celsius :: "real \<Rightarrow> real" where
  "Reaumur_to_Celsius re = re / REAUMUR_RATIO"

definition Celsius_to_Delisle :: "real \<Rightarrow> real" where
  "Celsius_to_Delisle c = (DELISLE_BASE - c) * DELISLE_RATIO"

definition Delisle_to_Celsius :: "real \<Rightarrow> real" where
  "Delisle_to_Celsius de = DELISLE_BASE - de / DELISLE_RATIO"

definition Celsius_to_Newton :: "real \<Rightarrow> real" where
  "Celsius_to_Newton c = c * NEWTON_RATIO"

definition Newton_to_Celsius :: "real \<Rightarrow> real" where
  "Newton_to_Celsius n = n / NEWTON_RATIO"

definition Celsius_to_Romer :: "real \<Rightarrow> real" where
  "Celsius_to_Romer c = c * ROMER_RATIO + ROMER_OFFSET"

definition Romer_to_Celsius :: "real \<Rightarrow> real" where
  "Romer_to_Celsius ro = (ro - ROMER_OFFSET) / ROMER_RATIO"

subsection \<open>The scale registry\<close>

text \<open>
  The array \<^verbatim>\<open>valid_scales\<close> of \<^verbatim>\<open>Is_valid_scale\<close>: nineteen string literals and the
  terminating \<^verbatim>\<open>NULL\<close>, which is \<open>None\<close> here.
\<close>

definition valid_scales :: "string option list" where
  "valid_scales =
     [Some ''C'', Some ''c'', Some ''F'', Some ''f'', Some ''K'', Some ''k'', Some ''R'', Some ''r'',
      Some ''Re'', Some ''re'', Some ''RE'', Some ''De'', Some ''de'', Some ''DE'',
      Some ''N'', Some ''n'', Some ''Ro'', Some ''ro'', Some ''RO'', None]"

text \<open>
  The scan of \<^verbatim>\<open>Is_valid_scale\<close> from index \<open>i\<close> over an array \<open>arr\<close>: it stops at the
  first \<^verbatim>\<open>NULL\<close> with 0 and at the first equal entry with 1. The C code never reads past
  the terminator; the model gives 0 for an index outside the array.
\<close>

function scan_scales :: "string option list \<Rightarrow> string \<Rightarrow> nat \<Rightarrow> int" where
  "scan_scales arr scale i =
     (if i < length arr then
        (case arr ! i of
           None \<Rightarrow> 0
         | Some v \<Rightarrow> if scale = v then 1 else scan_scales arr scale (i + 1))
      else 0)"
  by pat_completeness auto
termination
  by (relation "measure (\<lambda>(arr, scale, i). length arr - i)") auto

declare scan_scales.simps [simp del]

definition Is_valid_scale :: "string \<Rightarrow> int" where
  "Is_valid_scale scale = scan_scales valid_scales scale 0"

definition Get_type :: "string \<Rightarrow> Temperature" where
  "Get_type scale_name =
     (if scale_name = ''C'' \<or> scale_name = ''c'' then CELSIUS
      else if scale_name = ''F'' \<or> scale_name = ''f'' then FAHRENHEIT
      else if scale_name = ''K'' \<or> scale_name = ''k'' then KELVIN
      else if scale_name = ''R'' \<or> scale_name = ''r'' then RANKINE
      else if scale_name = ''Re'' \<or> scale_name = ''re'' \<or> scale_name = ''RE'' then REAUMUR
      else if scale_name = ''De'' \<or> scale_name = ''de'' \<or> scale_name = ''DE'' then DELISLE
      else if scale_name = ''N'' \<or> scale_name = ''n'' then NEWTON
      else if scale_name = ''Ro'' \<or> scale_name = ''ro'' \<or> scale_name = ''RO'' then ROMER
      else UNKNOWN)"

text \<open>The nineteen identifiers of the whitelist, as a list.\<close>

definition whitelist :: "string list" where
  "whitelist = map the (butlast valid_scales)"

section \<open>The conversion engine\<close>

text \<open>
  \<^verbatim>\<open>Convert_temperature\<close> ends the process on an error: it prints a message and calls
  \<^verbatim>\<open>Usage\<close> (which calls \<^verbatim>\<open>exit\<close>) or \<^verbatim>\<open>exit\<close> itself. The model returns the error
  as a value instead. \<open>UnknownScale\<close> carries the side and the identifier that the message
  names, \<open>NegativeAbsoluteTemperature\<close> the source identifier and the value.
\<close>

datatype side = Source | Target

datatype error =
    UnknownScale side string
  | NegativeAbsoluteTemperature string real

text \<open>
  \<^verbatim>\<open>Convert_temperature\<close> of \<^verbatim>\<open>gradus_enhanced.c\<close>: both scale checks, then the guard for the
  absolute scales, then the two switches.
\<close>

definition Convert_temperature_enhanced :: "real \<Rightarrow> string \<Rightarrow> string \<Rightarrow> error + real" where
  "Convert_temperature_enhanced v source target =
     (let source_type = Get_type source;
          target_type = Get_type target
      in if source_type = UNKNOWN then Inl (UnknownScale Source source)
         else if target_type = UNKNOWN then Inl (UnknownScale Target target)
         else if (source_type = KELVIN \<or> source_type = RANKINE) \<and> v < 0
           then Inl (NegativeAbsoluteTemperature source v)
         else
           let celsius =
             (case source_type of
               CELSIUS \<Rightarrow> v
             | FAHRENHEIT \<Rightarrow> Fahrenheit_to_Celsius v
             | KELVIN \<Rightarrow> Kelvin_to_Celsius v
             | RANKINE \<Rightarrow> Rankine_to_Celsius v
             | REAUMUR \<Rightarrow> Reaumur_to_Celsius v
             | DELISLE \<Rightarrow> Delisle_to_Celsius v
             | NEWTON \<Rightarrow> Newton_to_Celsius v
             | ROMER \<Rightarrow> Romer_to_Celsius v
             | UNKNOWN \<Rightarrow> 0)
           in (case target_type of
             CELSIUS \<Rightarrow> Inr celsius
           | FAHRENHEIT \<Rightarrow> Inr (Celsius_to_Fahrenheit celsius)
           | KELVIN \<Rightarrow> Inr (Celsius_to_Kelvin celsius)
           | RANKINE \<Rightarrow> Inr (Celsius_to_Rankine celsius)
           | REAUMUR \<Rightarrow> Inr (Celsius_to_Reaumur celsius)
           | DELISLE \<Rightarrow> Inr (Celsius_to_Delisle celsius)
           | NEWTON \<Rightarrow> Inr (Celsius_to_Newton celsius)
           | ROMER \<Rightarrow> Inr (Celsius_to_Romer celsius)
           | UNKNOWN \<Rightarrow> Inl (UnknownScale Target target)))"

text \<open>
  \<^verbatim>\<open>Convert_temperature\<close> of \<^verbatim>\<open>gradus_fixed.c\<close>: only the source scale is checked before the
  guard; an unknown target is met in the \<^verbatim>\<open>default\<close> branch of the second switch.
\<close>

definition Convert_temperature_fixed :: "real \<Rightarrow> string \<Rightarrow> string \<Rightarrow> error + real" where
  "Convert_temperature_fixed v source target =
     (let source_type = Get_type source;
          target_type = Get_type target
      in if source_type = UNKNOWN then Inl (UnknownScale Source source)
         else if (source_type = KELVIN \<or> source_type = RANKINE) \<and> v < 0
           then Inl (NegativeAbsoluteTemperature source v)
         else
           let celsius =
             (case source_type of
               CELSIUS \<Rightarrow> v
             | FAHRENHEIT \<Rightarrow> Fahrenheit_to_Celsius v
             | KELVIN \<Rightarrow> Kelvin_to_Celsius v
             | RANKINE \<Rightarrow> Rankine_to_Celsius v
             | REAUMUR \<Rightarrow> Reaumur_to_Celsius v
             | DELISLE \<Rightarrow> Delisle_to_Celsius v
             | NEWTON \<Rightarrow> Newton_to_Celsius v
             | ROMER \<Rightarrow> Romer_to_Celsius v
             | UNKNOWN \<Rightarrow> 0)
           in (case target_type of
             CELSIUS \<Rightarrow> Inr celsius
           | FAHRENHEIT \<Rightarrow> Inr (Celsius_to_Fahrenheit celsius)
           | KELVIN \<Rightarrow> Inr (Celsius_to_Kelvin celsius)
           | RANKINE \<Rightarrow> Inr (Celsius_to_Rankine celsius)
           | REAUMUR \<Rightarrow> Inr (Celsius_to_Reaumur celsius)
           | DELISLE \<Rightarrow> Inr (Celsius_to_Delisle celsius)
           | NEWTON \<Rightarrow> Inr (Celsius_to_Newton celsius)
           | ROMER \<Rightarrow> Inr (Celsius_to_Romer celsius)
           | UNKNOWN \<Rightarrow> Inl (UnknownScale Target target)))"

section \<open>The display layer\<close>

text \<open>
  Every caller of \<^verbatim>\<open>Convert_temperature\<close> (the two loops of \<^verbatim>\<open>main\<close> in both files and
  \<^verbatim>\<open>Process_array\<close>) treats the result with the same three lines before
  \<^verbatim>\<open>printf("%.2f", r)\<close>:
  \<^verbatim>\<open>if (fabs(r) < 0.005 && r != 0.0) { r = 0.0; }\<close>
\<close>

definition suppress_small :: "real \<Rightarrow> real" where
  "suppress_small r = (if \<bar>r\<bar> < 0.005 \<and> r \<noteq> 0.0 then 0.0 else r)"

text \<open>
  \<^verbatim>\<open>printf\<close> belongs to the C library. Its conversion \<^verbatim>\<open>%.2f\<close> is modelled from the C
  standard: a minus sign for a negative value, the decimal digits of the integer part,
  a point and two fractional digits, the value rounded to the nearest hundredth (a tie
  to the even neighbour).
\<close>

definition round_half_even :: "real \<Rightarrow> int" where
  "round_half_even x =
     (let q = \<lfloor>x\<rfloor>; f = x - of_int q
      in if f < 1 / 2 then q
         else if 1 / 2 < f then q + 1
         else if even q then q else q + 1)"

definition digit_char :: "nat \<Rightarrow> char" where
  "digit_char d = ''0123456789'' ! d"

fun decimal :: "nat \<Rightarrow> string" where
  "decimal n = (if n < 10 then [digit_char n] else decimal (n div 10) @ [digit_char (n mod 10)])"

declare decimal.simps [simp del]

definition printf_2f :: "real \<Rightarrow> string" where
  "printf_2f r =
     (let n = nat (round_half_even (\<bar>r\<bar> * 100))
      in (if r < 0 then ''-'' else [])
         @ decimal (n div 100) @ ''.''
         @ [digit_char (n mod 100 div 10), digit_char (n mod 10)])"

definition display_result :: "real \<Rightarrow> string" where
  "display_result r = printf_2f (suppress_small r)"

section \<open>The program of \<^verbatim>\<open>gradus_fixed.c\<close>\<close>

text \<open>
  In \<^verbatim>\<open>gradus_fixed.c\<close> the function \<^verbatim>\<open>Convert_temperature\<close> is \<^verbatim>\<open>static\<close> and called at two
  places, both in \<^verbatim>\<open>main\<close>. This is \<^verbatim>\<open>main\<close> after its option loop: \<open>source_scale\<close> and
  \<open>target_scale\<close> are the arguments of \<^verbatim>\<open>-s\<close> and \<^verbatim>\<open>-t\<close> (\<open>None\<close> for a \<^verbatim>\<open>NULL\<close> pointer),
  \<open>args\<close> the arguments from \<^verbatim>\<open>optind\<close> on, \<open>stdin_lines\<close> the lines \<^verbatim>\<open>getline\<close> delivers,
  each with its newline if it has one. The result is what was written to \<^verbatim>\<open>stdout\<close> and,
  if the process ended in \<^verbatim>\<open>exit(EXIT_FAILURE)\<close>, the message it ended with.

  \<^verbatim>\<open>Parse\<close> is a parameter: its result on a token, the value or one of its three
  messages, is decided by \<^verbatim>\<open>strtod\<close> of the C library.
\<close>

datatype failure =
    ScalesRequired
  | InvalidScale side string
  | NumberOutOfRange string
  | InvalidNumber string
  | SpecialNumber string
  | ConversionFailed error

definition newline :: string where
  "newline = [CHR 0x0A]"

text \<open>
  The body that both loops of \<^verbatim>\<open>main\<close> run for a token: \<^verbatim>\<open>Parse\<close>,
  \<^verbatim>\<open>Convert_temperature\<close>, the three lines of the display rule, \<^verbatim>\<open>printf("%.2f\n", r)\<close>.
\<close>

definition print_converted_fixed ::
  "(string \<Rightarrow> failure + real) \<Rightarrow> string \<Rightarrow> string \<Rightarrow> string \<Rightarrow> failure + string" where
  "print_converted_fixed Parse source_scale target_scale token =
     (case Parse token of
        Inl f \<Rightarrow> Inl f
      | Inr v \<Rightarrow>
          (case Convert_temperature_fixed v source_scale target_scale of
             Inl e \<Rightarrow> Inl (ConversionFailed e)
           | Inr r \<Rightarrow> Inr (display_result r @ newline)))"

text \<open>The loop \<^verbatim>\<open>for (int i = optind; i < argc; ++i)\<close>.\<close>

fun main_fixed_arguments ::
  "(string \<Rightarrow> failure + real) \<Rightarrow> string \<Rightarrow> string \<Rightarrow> string list \<Rightarrow> string \<times> failure option" where
  "main_fixed_arguments Parse source_scale target_scale [] = ([], None)"
| "main_fixed_arguments Parse source_scale target_scale (arg # args) =
     (case print_converted_fixed Parse source_scale target_scale arg of
        Inl f \<Rightarrow> ([], Some f)
      | Inr out \<Rightarrow>
          (let (rest, f) = main_fixed_arguments Parse source_scale target_scale args
           in (out @ rest, f)))"

text \<open>
  The loop over \<^verbatim>\<open>getline\<close>: \<open>l\<close> is the length \<^verbatim>\<open>getline\<close> returns, a final newline is
  cut off, and a line with \<open>l \<le> 1\<close> is skipped.
\<close>

fun main_fixed_stdin ::
  "(string \<Rightarrow> failure + real) \<Rightarrow> string \<Rightarrow> string \<Rightarrow> string list \<Rightarrow> string \<times> failure option" where
  "main_fixed_stdin Parse source_scale target_scale [] = ([], None)"
| "main_fixed_stdin Parse source_scale target_scale (raw # raws) =
     (let l = length raw;
          line = (if l \<noteq> 0 \<and> raw ! (l - 1) = CHR 0x0A then take (l - 1) raw else raw)
      in if 1 < l then
           (case print_converted_fixed Parse source_scale target_scale line of
              Inl f \<Rightarrow> ([], Some f)
            | Inr out \<Rightarrow>
                (let (rest, f) = main_fixed_stdin Parse source_scale target_scale raws
                 in (out @ rest, f)))
         else main_fixed_stdin Parse source_scale target_scale raws)"

definition main_fixed ::
  "(string \<Rightarrow> failure + real) \<Rightarrow> string option \<Rightarrow> string option \<Rightarrow> string list \<Rightarrow> string list
     \<Rightarrow> string \<times> failure option" where
  "main_fixed Parse source_scale target_scale args stdin_lines =
     (case source_scale of
        None \<Rightarrow> ([], Some ScalesRequired)
      | Some source \<Rightarrow>
          (case target_scale of
             None \<Rightarrow> ([], Some ScalesRequired)
           | Some target \<Rightarrow>
               if Is_valid_scale source = 0 then ([], Some (InvalidScale Source source))
               else if Is_valid_scale target = 0 then ([], Some (InvalidScale Target target))
               else if args \<noteq> [] then main_fixed_arguments Parse source target args
               else main_fixed_stdin Parse source target stdin_lines))"

section \<open>Properties of the scale registry\<close>

lemmas gradus_constants =
  FAHRENHEIT_RATIO_def CELSIUS_RATIO_def ABSOLUTE_ZERO_CELSIUS_def
  ABSOLUTE_ZERO_FAHRENHEIT_def REAUMUR_RATIO_def DELISLE_RATIO_def NEWTON_RATIO_def
  ROMER_RATIO_def ROMER_OFFSET_def DELISLE_BASE_def

lemmas gradus_conversions =
  Celsius_to_Fahrenheit_def Fahrenheit_to_Celsius_def Celsius_to_Kelvin_def
  Kelvin_to_Celsius_def Celsius_to_Rankine_def Rankine_to_Celsius_def
  Celsius_to_Reaumur_def Reaumur_to_Celsius_def Celsius_to_Delisle_def
  Delisle_to_Celsius_def Celsius_to_Newton_def Newton_to_Celsius_def
  Celsius_to_Romer_def Romer_to_Celsius_def

lemma whitelist_eq:
  "whitelist =
     [''C'', ''c'', ''F'', ''f'', ''K'', ''k'', ''R'', ''r'',
      ''Re'', ''re'', ''RE'', ''De'', ''de'', ''DE'', ''N'', ''n'', ''Ro'', ''ro'', ''RO'']"
  by (simp add: whitelist_def valid_scales_def)

text \<open>
  The scan over any array of strings closed by one \<^verbatim>\<open>NULL\<close>: from index \<open>i\<close> it answers
  whether the string occurs at \<open>i\<close> or later. The induction is on the number of entries
  still ahead of \<open>i\<close>.
\<close>

lemma scan_scales_terminated:
  "scan_scales (map Some ws @ [None]) scale i = (if scale \<in> set (drop i ws) then 1 else 0)"
proof (induction "length ws - i" arbitrary: i)
  case 0
  then show ?case
    by (cases "i = length ws") (simp_all add: scan_scales.simps nth_append)
next
  case (Suc n)
  then have lt: "i < length ws"
    by simp
  have ahead: "scan_scales (map Some ws @ [None]) scale (i + 1) =
      (if scale \<in> set (drop (i + 1) ws) then 1 else 0)"
    using Suc by simp
  have here: "drop i ws = ws ! i # drop (i + 1) ws"
    using lt by (simp add: Cons_nth_drop_Suc)
  show ?case
    using lt ahead by (subst scan_scales.simps) (auto simp: nth_append here)
qed

lemma valid_scales_whitelist: "valid_scales = map Some whitelist @ [None]"
  by (simp add: whitelist_eq) (simp add: valid_scales_def)

lemma Is_valid_scale_whitelist: "Is_valid_scale s = (if s \<in> set whitelist then 1 else 0)"
  unfolding Is_valid_scale_def valid_scales_whitelist by (simp add: scan_scales_terminated)

lemma Get_type_whitelist: "Get_type s \<noteq> UNKNOWN \<longleftrightarrow> s \<in> set whitelist"
  by (simp add: Get_type_def whitelist_eq)

lemma Get_type_literals:
  "Get_type ''C'' = CELSIUS" "Get_type ''c'' = CELSIUS"
  "Get_type ''F'' = FAHRENHEIT" "Get_type ''f'' = FAHRENHEIT"
  "Get_type ''K'' = KELVIN" "Get_type ''k'' = KELVIN"
  "Get_type ''R'' = RANKINE" "Get_type ''r'' = RANKINE"
  "Get_type ''Re'' = REAUMUR" "Get_type ''re'' = REAUMUR" "Get_type ''RE'' = REAUMUR"
  "Get_type ''De'' = DELISLE" "Get_type ''de'' = DELISLE" "Get_type ''DE'' = DELISLE"
  "Get_type ''N'' = NEWTON" "Get_type ''n'' = NEWTON"
  "Get_type ''Ro'' = ROMER" "Get_type ''ro'' = ROMER" "Get_type ''RO'' = ROMER"
  by (simp_all add: Get_type_def)

text \<open>
  Claim C6. For every string \<open>s\<close>, \<^verbatim>\<open>Is_valid_scale\<close> answers true (a non-zero \<^verbatim>\<open>int\<close>, in
  fact 1) exactly when \<^verbatim>\<open>Get_type\<close> does not answer \<open>UNKNOWN\<close>. Both are lookups of \<open>s\<close> in
  the same whitelist, the nineteen distinct literals of the array \<^verbatim>\<open>valid_scales\<close>; as HOL
  functions of \<open>s\<close> alone they have no effect and no hidden input.
\<close>

theorem isValid_iff_resolve_known:
  "(Is_valid_scale s \<noteq> 0) = (Get_type s \<noteq> UNKNOWN)
   \<and> (Is_valid_scale s = 1) = (s \<in> set whitelist)
   \<and> (Is_valid_scale s = 0) = (s \<notin> set whitelist)
   \<and> (Get_type s \<noteq> UNKNOWN) = (s \<in> set whitelist)
   \<and> length whitelist = 19 \<and> distinct whitelist"
  by (simp add: Is_valid_scale_whitelist Get_type_whitelist) (simp add: whitelist_eq)

theorem isValid_iff_resolve_known_witness:
  "Is_valid_scale ''Re'' \<noteq> 0 \<and> Get_type ''Re'' \<noteq> UNKNOWN
   \<and> Is_valid_scale ''rE'' = 0 \<and> Get_type ''rE'' = UNKNOWN"
  using isValid_iff_resolve_known [of "''Re''"] isValid_iff_resolve_known [of "''rE''"]
  by (simp add: Get_type_def)

text \<open>
  Claim C7. \<^verbatim>\<open>Get_type\<close> maps \<open>Re\<close>, \<open>re\<close> and \<open>RE\<close> to \<open>REAUMUR\<close>, maps \<open>R\<close> and \<open>r\<close> to
  \<open>RANKINE\<close>, and answers \<open>UNKNOWN\<close> for every string that is not one of the nineteen of
  the whitelist, among them \<open>X\<close> and the mixed casing \<open>rE\<close>.
\<close>

theorem resolve_casing_whitelist:
  "Get_type ''Re'' = REAUMUR \<and> Get_type ''re'' = REAUMUR \<and> Get_type ''RE'' = REAUMUR
   \<and> Get_type ''R'' = RANKINE \<and> Get_type ''r'' = RANKINE
   \<and> (s \<notin> set whitelist \<longrightarrow> Get_type s = UNKNOWN)
   \<and> Get_type ''X'' = UNKNOWN \<and> Get_type ''rE'' = UNKNOWN"
proof -
  have "s \<notin> set whitelist \<longrightarrow> Get_type s = UNKNOWN"
    using Get_type_whitelist [of s] by blast
  moreover have "Get_type ''X'' = UNKNOWN" "Get_type ''rE'' = UNKNOWN"
    by (simp_all add: Get_type_def)
  ultimately show ?thesis
    by (simp add: Get_type_literals)
qed

theorem resolve_casing_whitelist_witness:
  "''rE'' \<notin> set whitelist \<and> Get_type ''rE'' = UNKNOWN"
  using resolve_casing_whitelist [of "''rE''"] by (simp add: whitelist_eq)

section \<open>Properties of the conversion engine\<close>

lemmas Convert_defs = Convert_temperature_enhanced_def Convert_temperature_fixed_def

text \<open>
  The two versions differ only in where an unknown target is noticed, so they give the
  same result, error or number, whenever the target is known.
\<close>

lemma Convert_versions_eq:
  "Get_type target \<noteq> UNKNOWN \<Longrightarrow>
     Convert_temperature_fixed v source target = Convert_temperature_enhanced v source target"
  by (simp add: Convert_defs Let_def)


lemma Convert_fixed_unknown:
  "Get_type source = UNKNOWN \<Longrightarrow>
     Convert_temperature_fixed v source target = Inl (UnknownScale Source source)"
  "Get_type source \<noteq> UNKNOWN \<Longrightarrow> Get_type target = UNKNOWN \<Longrightarrow>
     Convert_temperature_fixed v source target =
       (if (Get_type source = KELVIN \<or> Get_type source = RANKINE) \<and> v < 0
        then Inl (NegativeAbsoluteTemperature source v)
        else Inl (UnknownScale Target target))"
  by (simp_all add: Convert_defs Let_def)

lemma Convert_enhanced_guard:
  "Get_type source = KELVIN \<or> Get_type source = RANKINE \<Longrightarrow> Get_type target \<noteq> UNKNOWN \<Longrightarrow>
     v < 0 \<Longrightarrow>
     Convert_temperature_enhanced v source target = Inl (NegativeAbsoluteTemperature source v)"
  by (auto simp add: Convert_defs Let_def)

lemma Convert_enhanced_returns:
  "Get_type source \<noteq> UNKNOWN \<Longrightarrow> Get_type target \<noteq> UNKNOWN \<Longrightarrow>
     \<not> ((Get_type source = KELVIN \<or> Get_type source = RANKINE) \<and> v < 0) \<Longrightarrow>
     \<exists>y. Convert_temperature_enhanced v source target = Inr y"
  by (cases "Get_type target") (simp_all add: Convert_defs Let_def)

text \<open>The two stages, each seen through a call with Celsius on the other side.\<close>

lemma Convert_enhanced_to_Celsius:
  assumes "Get_type source \<noteq> UNKNOWN"
    and "Get_type source = KELVIN \<or> Get_type source = RANKINE \<longrightarrow> 0 \<le> v"
  shows "Convert_temperature_enhanced v source ''C'' =
     Inr (case Get_type source of
            CELSIUS \<Rightarrow> v
          | FAHRENHEIT \<Rightarrow> Fahrenheit_to_Celsius v
          | KELVIN \<Rightarrow> Kelvin_to_Celsius v
          | RANKINE \<Rightarrow> Rankine_to_Celsius v
          | REAUMUR \<Rightarrow> Reaumur_to_Celsius v
          | DELISLE \<Rightarrow> Delisle_to_Celsius v
          | NEWTON \<Rightarrow> Newton_to_Celsius v
          | ROMER \<Rightarrow> Romer_to_Celsius v
          | UNKNOWN \<Rightarrow> 0)"
  using assms by (auto simp add: Convert_defs Get_type_literals Let_def)

lemma Convert_enhanced_from_Celsius:
  "Convert_temperature_enhanced c ''C'' target =
     (case Get_type target of
        CELSIUS \<Rightarrow> Inr c
      | FAHRENHEIT \<Rightarrow> Inr (Celsius_to_Fahrenheit c)
      | KELVIN \<Rightarrow> Inr (Celsius_to_Kelvin c)
      | RANKINE \<Rightarrow> Inr (Celsius_to_Rankine c)
      | REAUMUR \<Rightarrow> Inr (Celsius_to_Reaumur c)
      | DELISLE \<Rightarrow> Inr (Celsius_to_Delisle c)
      | NEWTON \<Rightarrow> Inr (Celsius_to_Newton c)
      | ROMER \<Rightarrow> Inr (Celsius_to_Romer c)
      | UNKNOWN \<Rightarrow> Inl (UnknownScale Target target))"
  by (simp add: Convert_defs Get_type_literals Let_def)

subsection \<open>Round trip and identity\<close>

text \<open>
  In exact arithmetic the round trip through Celsius and the conversion of a scale to
  itself give the value back for seven of the eight scales. For Rankine both add 983.34:
  \<^verbatim>\<open>Rankine_to_Celsius\<close> adds 491.67 where the inverse of \<^verbatim>\<open>Celsius_to_Rankine\<close> subtracts
  it.
\<close>

lemma roundtrip_other_scales:
  assumes "Get_type S \<noteq> UNKNOWN" and "Get_type S \<noteq> RANKINE"
    and "Get_type S = KELVIN \<longrightarrow> 0 \<le> x"
  shows "\<exists>c. Convert_temperature_enhanced x S ''C'' = Inr c
            \<and> Convert_temperature_enhanced c ''C'' S = Inr x"
proof -
  have first: "Convert_temperature_enhanced x S ''C'' =
      Inr (case Get_type S of
             CELSIUS \<Rightarrow> x
           | FAHRENHEIT \<Rightarrow> Fahrenheit_to_Celsius x
           | KELVIN \<Rightarrow> Kelvin_to_Celsius x
           | RANKINE \<Rightarrow> Rankine_to_Celsius x
           | REAUMUR \<Rightarrow> Reaumur_to_Celsius x
           | DELISLE \<Rightarrow> Delisle_to_Celsius x
           | NEWTON \<Rightarrow> Newton_to_Celsius x
           | ROMER \<Rightarrow> Romer_to_Celsius x
           | UNKNOWN \<Rightarrow> 0)" (is "_ = Inr ?c")
    using assms by (intro Convert_enhanced_to_Celsius) auto
  have "Convert_temperature_enhanced ?c ''C'' S = Inr x"
    using assms
    by (cases "Get_type S")
       (simp_all add: Convert_enhanced_from_Celsius gradus_conversions gradus_constants
          field_simps)
  with first show ?thesis
    by blast
qed

lemma roundtrip_Rankine:
  assumes "Get_type S = RANKINE" and "0 \<le> x"
  shows "\<exists>c. Convert_temperature_enhanced x S ''C'' = Inr c
            \<and> Convert_temperature_enhanced c ''C'' S = Inr (x + 983.34)"
proof -
  have first: "Convert_temperature_enhanced x S ''C'' = Inr (Rankine_to_Celsius x)"
    using assms by (simp add: Convert_enhanced_to_Celsius)
  have "Convert_temperature_enhanced (Rankine_to_Celsius x) ''C'' S = Inr (x + 983.34)"
    using assms
    by (simp add: Convert_enhanced_from_Celsius gradus_conversions gradus_constants
          field_simps)
  with first show ?thesis
    by blast
qed

lemma identity_other_scales:
  assumes "Get_type S \<noteq> UNKNOWN" and "Get_type S \<noteq> RANKINE"
    and "Get_type S = KELVIN \<longrightarrow> 0 \<le> x"
  shows "Convert_temperature_enhanced x S S = Inr x"
  using assms
  by (cases "Get_type S")
     (simp_all add: Convert_defs gradus_conversions gradus_constants field_simps)

lemma identity_Rankine:
  assumes "Get_type S = RANKINE" and "0 \<le> x"
  shows "Convert_temperature_enhanced x S S = Inr (x + 983.34)"
  using assms
  by (simp add: Convert_defs gradus_conversions gradus_constants field_simps)

text \<open>
  Claim C1. The round trip \<open>convert(convert(x, S, Celsius), Celsius, S)\<close> is claimed to
  give \<open>x\<close> back within \<open>1e-9\<close> for every scale. For Rankine and \<open>x = 0\<close>, which the guard
  admits, both versions return 983.34: the first call gives 273.15 and the second
  \<open>(273.15 + 273.15) * 9/5\<close>.
\<close>

theorem Rankine_roundtrip_adds_983_34:
  "Convert_temperature_enhanced 0 ''R'' ''C'' = Inr 273.15
   \<and> Convert_temperature_enhanced 273.15 ''C'' ''R'' = Inr 983.34
   \<and> Convert_temperature_fixed 0 ''R'' ''C'' = Inr 273.15
   \<and> Convert_temperature_fixed 273.15 ''C'' ''R'' = Inr 983.34
   \<and> \<not> \<bar>983.34 - (0::real)\<bar> \<le> 1 / 10 ^ 9"
  by (simp add: Convert_defs Get_type_literals gradus_conversions gradus_constants)

text \<open>
  Claim C2. The conversion of a scale to itself is claimed to return its argument. For
  Rankine and 100 both versions return 1083.34. The two Rankine functions disagree about
  the freezing point of water: \<^verbatim>\<open>Celsius_to_Rankine\<close> sends 0 to 491.67, and
  \<^verbatim>\<open>Rankine_to_Celsius\<close> sends 491.67 to 546.3.
\<close>

theorem Rankine_identity_adds_983_34:
  "Convert_temperature_enhanced 100 ''R'' ''R'' = Inr 1083.34
   \<and> Convert_temperature_fixed 100 ''R'' ''R'' = Inr 1083.34
   \<and> Rankine_to_Celsius 491.67 = 546.3
   \<and> Celsius_to_Rankine 0 = 491.67"
  by (simp add: Convert_defs Get_type_literals gradus_conversions gradus_constants)

text \<open>
  Claim C3. A Rankine source value \<open>r\<close> is normalized to Celsius as
  \<open>(r - (-459.67) + 32) * 5/9\<close>, which is \<open>(r + 491.67) * 5/9\<close>. This is what
  \<^verbatim>\<open>Rankine_to_Celsius\<close> computes, what both versions of \<^verbatim>\<open>Convert_temperature\<close> return for
  a Rankine source that passes the guard and the target Celsius, and the first of the
  two stages for any target: the conversion from Rankine equals the conversion of that
  Celsius value from Celsius.
\<close>

theorem Rankine_normalization_formula:
  "Rankine_to_Celsius r = (r - (- 459.67) + 32) * (5 / 9)
   \<and> Rankine_to_Celsius r = (r + 491.67) * 5 / 9
   \<and> (Get_type source = RANKINE \<and> 0 \<le> r \<longrightarrow>
        Convert_temperature_enhanced r source ''C'' = Inr ((r + 491.67) * 5 / 9)
      \<and> Convert_temperature_fixed r source ''C'' = Inr ((r + 491.67) * 5 / 9)
      \<and> Convert_temperature_enhanced r source target
          = Convert_temperature_enhanced ((r + 491.67) * 5 / 9) ''C'' target
      \<and> Convert_temperature_fixed r source target
          = Convert_temperature_fixed ((r + 491.67) * 5 / 9) ''C'' target)"
proof -
  have short: "Rankine_to_Celsius r = (r + 491.67) * 5 / 9"
    by (simp add: gradus_conversions gradus_constants)
  have long: "Rankine_to_Celsius r = (r - (- 459.67) + 32) * (5 / 9)"
    by (simp add: gradus_conversions gradus_constants)
  show ?thesis
    unfolding short [symmetric]
    using long by (auto simp add: Convert_defs Get_type_literals Let_def)
qed

theorem Rankine_normalization_formula_witness:
  "Get_type ''R'' = RANKINE \<and> Get_type ''r'' = RANKINE \<and> (0::real) \<le> 0
   \<and> Convert_temperature_enhanced 0 ''R'' ''C'' = Inr 273.15
   \<and> Convert_temperature_fixed 0 ''r'' ''C'' = Inr 273.15"
  using Rankine_normalization_formula [of 0 "''R''" "''C''"]
    Rankine_normalization_formula [of 0 "''r''" "''C''"]
  by (simp add: Get_type_literals)

subsection \<open>The guard for the absolute scales\<close>

text \<open>
  Claim C4. The guard looks at the source scale only. For every known target, the value
  \<open>-1\<close> with a Kelvin or Rankine source fails with \<open>NegativeAbsoluteTemperature\<close> in both
  versions; with any other known source every value, however negative, is converted;
  \<open>convert(-1, Celsius, Kelvin)\<close> returns 272.15.
\<close>

theorem guard_applies_to_source_only:
  assumes "Get_type target \<noteq> UNKNOWN"
  shows "(Get_type source = KELVIN \<or> Get_type source = RANKINE \<longrightarrow>
            Convert_temperature_enhanced (- 1) source target
              = Inl (NegativeAbsoluteTemperature source (- 1))
          \<and> Convert_temperature_fixed (- 1) source target
              = Inl (NegativeAbsoluteTemperature source (- 1)))
       \<and> (Get_type source \<noteq> KELVIN \<and> Get_type source \<noteq> RANKINE \<and> Get_type source \<noteq> UNKNOWN \<longrightarrow>
            (\<exists>y. Convert_temperature_enhanced v source target = Inr y
                \<and> Convert_temperature_fixed v source target = Inr y))
       \<and> Convert_temperature_enhanced (- 1) ''C'' ''K'' = Inr 272.15
       \<and> Convert_temperature_fixed (- 1) ''C'' ''K'' = Inr 272.15"
proof -
  have refused: "Convert_temperature_enhanced (- 1) source target
      = Inl (NegativeAbsoluteTemperature source (- 1))"
    if "Get_type source = KELVIN \<or> Get_type source = RANKINE"
    using that assms by (intro Convert_enhanced_guard) simp_all
  have converted: "\<exists>y. Convert_temperature_enhanced v source target = Inr y"
    if "Get_type source \<noteq> KELVIN \<and> Get_type source \<noteq> RANKINE \<and> Get_type source \<noteq> UNKNOWN"
    using that assms by (intro Convert_enhanced_returns) simp_all
  have enhanced: "Convert_temperature_enhanced (- 1) ''C'' ''K'' = Inr 272.15"
    by (simp add: Convert_defs Get_type_literals gradus_conversions gradus_constants)
  have fixed: "Convert_temperature_fixed (- 1) ''C'' ''K'' = Inr 272.15"
    by (simp add: Convert_defs Get_type_literals gradus_conversions gradus_constants)
  show ?thesis
    using refused converted enhanced fixed by (simp add: Convert_versions_eq [OF assms])
qed

theorem guard_applies_to_source_only_witness:
  "Get_type ''F'' \<noteq> UNKNOWN \<and> Get_type ''K'' = KELVIN \<and> Get_type ''r'' = RANKINE
   \<and> Get_type ''De'' = DELISLE
   \<and> Convert_temperature_enhanced (- 1) ''K'' ''F'' = Inl (NegativeAbsoluteTemperature ''K'' (- 1))
   \<and> Convert_temperature_fixed (- 1) ''r'' ''F'' = Inl (NegativeAbsoluteTemperature ''r'' (- 1))
   \<and> (\<exists>y. Convert_temperature_enhanced (- 1000) ''De'' ''F'' = Inr y
         \<and> Convert_temperature_fixed (- 1000) ''De'' ''F'' = Inr y)"
  using guard_applies_to_source_only [of "''F''" "''K''" 0]
    guard_applies_to_source_only [of "''F''" "''r''" 0]
    guard_applies_to_source_only [of "''F''" "''De''" "- 1000"]
  by (simp add: Get_type_literals)

subsection \<open>Unknown identifiers and the guard\<close>

lemma Is_valid_scale_0: "Is_valid_scale s = 0 \<longleftrightarrow> Get_type s = UNKNOWN"
  using Get_type_whitelist [of s] by (auto simp add: Is_valid_scale_whitelist)

text \<open>
  \<^verbatim>\<open>main\<close> of \<^verbatim>\<open>gradus_fixed.c\<close> enters its loops exactly with two known scales, and there
  its engine agrees with the engine of \<^verbatim>\<open>gradus_enhanced.c\<close>.
\<close>

lemma main_fixed_known_scales:
  assumes "Get_type source \<noteq> UNKNOWN" and "Get_type target \<noteq> UNKNOWN"
  shows "main_fixed Parse (Some source) (Some target) args stdin_lines =
     (if args \<noteq> [] then main_fixed_arguments Parse source target args
      else main_fixed_stdin Parse source target stdin_lines)"
  using assms by (simp add: main_fixed_def Is_valid_scale_0)

lemma print_converted_fixed_known_target:
  "Get_type target \<noteq> UNKNOWN \<Longrightarrow>
     print_converted_fixed Parse source target token =
       (case Parse token of
          Inl f \<Rightarrow> Inl f
        | Inr v \<Rightarrow>
            (case Convert_temperature_enhanced v source target of
               Inl e \<Rightarrow> Inl (ConversionFailed e)
             | Inr r \<Rightarrow> Inr (display_result r @ newline)))"
  by (simp add: print_converted_fixed_def Convert_versions_eq split: sum.split)




text \<open>
  Claim C10. The guard is the strict test \<open>value < 0\<close>. With a Kelvin or Rankine source
  and any known target, the values \<open>0.0\<close> and \<open>-0.0\<close> are converted by both versions. (The
  two spellings denote the same real number; C compares doubles by the number they
  denote, so \<open>-0.0 < 0\<close> is false as well.)
\<close>

theorem guard_is_strict:
  assumes "Get_type source = KELVIN \<or> Get_type source = RANKINE"
    and "Get_type target \<noteq> UNKNOWN"
  shows "(\<exists>y. Convert_temperature_enhanced 0.0 source target = Inr y)
       \<and> (\<exists>y. Convert_temperature_enhanced (- 0.0) source target = Inr y)
       \<and> (\<exists>y. Convert_temperature_fixed 0.0 source target = Inr y)
       \<and> (\<exists>y. Convert_temperature_fixed (- 0.0) source target = Inr y)"
proof -
  have "\<exists>y. Convert_temperature_enhanced 0 source target = Inr y"
    using assms by (intro Convert_enhanced_returns) auto
  then show ?thesis
    by (simp add: Convert_versions_eq [OF assms(2)])
qed

theorem guard_is_strict_witness:
  "Get_type ''K'' = KELVIN \<and> Get_type ''R'' = RANKINE
   \<and> Get_type ''C'' \<noteq> UNKNOWN \<and> Get_type ''Ro'' \<noteq> UNKNOWN
   \<and> (\<exists>y. Convert_temperature_enhanced 0.0 ''K'' ''C'' = Inr y)
   \<and> (\<exists>y. Convert_temperature_fixed (- 0.0) ''R'' ''Ro'' = Inr y)"
  using guard_is_strict [of "''K''" "''C''"] guard_is_strict [of "''R''" "''Ro''"]
  by (simp add: Get_type_literals)

subsection \<open>The two versions\<close>

text \<open>
  Claim C9. For identifiers that both resolve to known scales and a value that passes
  the guard (non-negative when the source is Kelvin or Rankine), the version of
  \<^verbatim>\<open>gradus_fixed.c\<close> and the version of \<^verbatim>\<open>gradus_enhanced.c\<close> both return, and return the same
  number.
\<close>

theorem versions_agree_on_valid_inputs:
  assumes "Get_type source \<noteq> UNKNOWN" and "Get_type target \<noteq> UNKNOWN"
    and "Get_type source = KELVIN \<or> Get_type source = RANKINE \<longrightarrow> 0 \<le> v"
  shows "\<exists>y. Convert_temperature_fixed v source target = Inr y
            \<and> Convert_temperature_enhanced v source target = Inr y"
proof -
  have "\<exists>y. Convert_temperature_enhanced v source target = Inr y"
    using assms by (intro Convert_enhanced_returns) auto
  then show ?thesis
    by (simp add: Convert_versions_eq [OF assms(2)])
qed

theorem versions_agree_on_valid_inputs_witness:
  "Get_type ''K'' \<noteq> UNKNOWN \<and> Get_type ''F'' \<noteq> UNKNOWN \<and> (0::real) \<le> 300
   \<and> (\<exists>y. Convert_temperature_fixed 300 ''K'' ''F'' = Inr y
         \<and> Convert_temperature_enhanced 300 ''K'' ''F'' = Inr y)"
  using versions_agree_on_valid_inputs [of "''K''" "''F''" 300]
  by (simp add: Get_type_literals)

section \<open>Properties of the display layer\<close>

lemma decimal_0: "decimal 0 = ''0''"
  by (simp add: decimal.simps digit_char_def)

lemma printf_2f_0: "printf_2f 0 = ''0.00''"
  by (simp add: printf_2f_def round_half_even_def decimal_0 digit_char_def)

text \<open>
  Claim C8. A result \<open>r\<close> with \<open>|r| < 0.005\<close> and \<open>r \<noteq> 0\<close> is replaced by \<open>0.0\<close> before
  it is formatted with two decimals, and is displayed as \<open>0.00\<close>. The result \<open>-0.001\<close> is
  displayed as \<open>0.00\<close>; formatted without the replacement it would read \<open>-0.00\<close>.
\<close>

theorem small_results_display_as_zero:
  "(\<bar>r\<bar> < 0.005 \<and> r \<noteq> 0.0 \<longrightarrow> suppress_small r = 0.0 \<and> display_result r = ''0.00'')
   \<and> display_result (- 0.001) = ''0.00''
   \<and> printf_2f (- 0.001) = ''-0.00''"
proof -
  have "printf_2f (- 0.001) = ''-0.00''"
    by (simp add: printf_2f_def round_half_even_def decimal_0 digit_char_def)
  then show ?thesis
    by (simp add: display_result_def suppress_small_def printf_2f_0)
qed

theorem small_results_display_as_zero_witness:
  "\<bar>0.004 :: real\<bar> < 0.005 \<and> (0.004 :: real) \<noteq> 0.0 \<and> display_result 0.004 = ''0.00''"
  using small_results_display_as_zero [of "0.004"] by simp

end
